theory Spec2Isabelle
  imports Main "HOL-Library.Multiset"
begin

section \<open>Data model\<close>

text \<open>
  The case-study backend keeps three PostgreSQL tables (\<open>projects\<close>, \<open>outcomes\<close>,
  \<open>files\<close>, created in \<open>main.py\<close>) and a directory of uploaded blobs. A table is a
  list of rows in insertion order, a nullable column is an \<open>option\<close>, a \<open>SERIAL\<close>
  column takes its value from a counter kept with the table. Dates and timestamps are
  integers (a later instant is a larger number).
\<close>

type_synonym path = string
type_synonym bytes = string
type_synonym date = int
type_synonym datetime = int
type_synonym json = "(string \<times> string) list"

text \<open>A row of \<open>projects\<close>; also the dictionary the cursor returns for it (\<open>models.Project\<close>).\<close>

record project_row =
  p_id :: int
  title :: "string option"
  description :: "string option"
  location :: "string option"
  start_date :: "date option"
  end_date :: "date option"
  community_size :: "int option"
  hazard_types :: "string list option"
  implementing_org :: "string option"
  author :: "string option"
  source :: "string option"
  created_at :: "datetime option"

text \<open>A row of \<open>outcomes\<close> as \<open>models.Outcome\<close> reads it back: every field present.\<close>

record outcome_row =
  o_id :: int
  o_project_id :: int
  success_metrics :: json
  challenges :: "string list"
  overall_success :: bool
  key_factors :: "string list"
  o_created_at :: datetime

text \<open>\<open>models.OutcomeUpdate\<close>: every field optional, \<open>None\<close> when the request omits it.\<close>

record outcome_update =
  u_success_metrics :: "json option"
  u_challenges :: "string list option"
  u_overall_success :: "bool option"
  u_key_factors :: "string list option"

record file_row =
  f_id :: int
  f_project_id :: int
  f_filename :: string
  f_filepath :: path
  f_filetype :: "string option"
  f_uploaded_at :: "datetime option"

text \<open>FastAPI's \<open>UploadFile\<close>: the client's file name, the bytes, the MIME type.\<close>

record upload_file =
  filename :: "string option"
  content :: bytes
  content_type :: "string option"

record database =
  projects :: "project_row list"
  outcomes :: "outcome_row list"
  files :: "file_row list"
  projects_id_seq :: int
  files_id_seq :: int

text \<open>The state an endpoint works on: the tables and the upload directory.\<close>

record world =
  db :: database
  disk :: "path \<rightharpoonup> bytes"

section \<open>Exceptions and the environment\<close>

text \<open>
  \<open>HTTPException status detail cause\<close>: \<open>status\<close> is the HTTP status the client receives
  (400 for a bad request or a missing confirmation, 404 for something not found, 500 for a
  server error), \<open>detail\<close> is the literal text of the message and \<open>cause\<close> the exception
  \<open>e\<close> whose \<open>str(e)\<close> the source appends to it, if any.
  \<open>Psycopg2Error\<close> stands for an error with which the server answers a statement it
  could parse, or for a failed connection; \<open>SyntaxError\<close> is the server's answer to a
  statement it cannot parse, \<open>InFailedSqlTransaction\<close> its answer to any statement sent in a
  transaction that an earlier error has aborted, and \<open>CannotAdapt\<close> the driver's refusal of
  a parameter it cannot convert (raised before anything is sent). \<open>OSError\<close> is any error
  raised by a file operation.
\<close>

datatype exn =
    HTTPException nat string "exn option"
  | Psycopg2Error
  | SyntaxError
  | InFailedSqlTransaction
  | CannotAdapt
  | OSError

text \<open>The SQL statements of the endpoints, by what they do.\<close>

datatype stmt =
    InsertProject
  | SelectProject int
  | InsertFile string
  | SelectFiles int
  | DeleteFiles int
  | DeleteProject int
  | SelectProjects
  | SelectLatestOutcome int
  | UpdateOutcome int
  | Commit

text \<open>
  What the code cannot decide is a parameter: whether the database can be reached, whether
  the server answers a statement with an error, whether a path can be written or removed,
  and the value of \<open>NOW()\<close>.

  A statement that the server answers with an error adds and removes no row, and it aborts
  the transaction: until the transaction ends, every further statement raises
  \<open>InFailedSqlTransaction\<close>, and \<open>commit\<close> then rolls back without raising. The endpoints other
  than the multi-file upload leave their \<open>try\<close> block at the first exception, so only that
  one runs statements in an aborted transaction.

  A write that raises does so either when the file is opened, and then the directory is as
  it was (\<open>write_leaves\<close> is \<open>None\<close>), or after \<open>open(..., "wb")\<close> has created or truncated the
  file, and then the file holds what had been written (\<open>write_leaves\<close> is \<open>Some\<close> of it).
\<close>

record env =
  connect_fails :: bool
  execute_fails :: "stmt \<Rightarrow> bool"
  write_fails :: "path \<Rightarrow> bool"
  write_leaves :: "path \<Rightarrow> bytes option"
  remove_fails :: "path \<Rightarrow> bool"
  now :: datetime

text \<open>
  \<open>conn.rollback()\<close>, from the tables at the start of the transaction and the tables now: the
  rows are those of the start; the sequences behind the \<open>SERIAL\<close> columns are not rolled back.
\<close>

definition rollback :: "database \<Rightarrow> database \<Rightarrow> database" where
  "rollback begun current =
     begun\<lparr>projects_id_seq := projects_id_seq current, files_id_seq := files_id_seq current\<rparr>"

text \<open>\<open>db.get_db_connection\<close>: a driver error becomes an HTTP 500.\<close>

definition get_db_connection :: "env \<Rightarrow> exn + unit" where
  "get_db_connection e =
     (if connect_fails e
      then Inl (HTTPException 500 ''Database connection failed: '' (Some Psycopg2Error))
      else Inr ())"

text \<open>
  \<open>with open(p, "wb") as buffer: content = await file.read(); buffer.write(content)\<close>:
  the exception raised, if any, and the directory afterwards.
\<close>

definition open_write ::
  "env \<Rightarrow> path \<Rightarrow> bytes \<Rightarrow> (path \<rightharpoonup> bytes) \<Rightarrow> exn option \<times> (path \<rightharpoonup> bytes)" where
  "open_write e p c d =
     (if write_fails e p
      then (Some OSError, case write_leaves e p of None \<Rightarrow> d | Some part \<Rightarrow> d(p \<mapsto> part))
      else (None, d(p \<mapsto> c)))"

definition os_path_exists :: "(path \<rightharpoonup> bytes) \<Rightarrow> path \<Rightarrow> bool" where
  "os_path_exists d p = (d p \<noteq> None)"

definition os_remove :: "env \<Rightarrow> path \<Rightarrow> (path \<rightharpoonup> bytes) \<Rightarrow> exn + (path \<rightharpoonup> bytes)" where
  "os_remove e p d =
     (if remove_fails e p \<or> d p = None then Inl OSError else Inr (d(p := None)))"

text \<open>What a successful endpoint returns (the \<open>message\<close> text is left out, the number in it kept).\<close>

datatype response =
    FileUploaded int int
  | FilesUploaded nat int "int list"
  | ProjectDeleted int nat

section \<open>Project deletion (\<open>endpoints/projects.py\<close>, \<open>delete_project\<close>)\<close>

text \<open>The loop over the project's file rows: a blob that cannot be removed is reported and skipped.\<close>

fun remove_blobs :: "env \<Rightarrow> file_row list \<Rightarrow> (path \<rightharpoonup> bytes) \<Rightarrow> int list \<Rightarrow> (path \<rightharpoonup> bytes) \<times> int list" where
  "remove_blobs e [] d deleted_files = (d, deleted_files)"
| "remove_blobs e (f # fs) d deleted_files =
     (if os_path_exists d (f_filepath f)
      then (case os_remove e (f_filepath f) d of
              Inl err \<Rightarrow> remove_blobs e fs d deleted_files
            | Inr d' \<Rightarrow> remove_blobs e fs d' (deleted_files @ [f_id f]))
      else remove_blobs e fs d deleted_files)"

text \<open>\<open>DELETE FROM projects WHERE id = %s\<close>, with the \<open>ON DELETE CASCADE\<close> of both child tables.\<close>

definition delete_project_row :: "int \<Rightarrow> database \<Rightarrow> database" where
  "delete_project_row pid d =
     d\<lparr>projects := filter (\<lambda>p. p_id p \<noteq> pid) (projects d),
       outcomes := filter (\<lambda>oc. o_project_id oc \<noteq> pid) (outcomes d),
       files := filter (\<lambda>f. f_project_id f \<noteq> pid) (files d)\<rparr>"

text \<open>The body of the \<open>try\<close>: the exception raised or the response and the tables, and the directory.\<close>

definition delete_project_try ::
  "env \<Rightarrow> world \<Rightarrow> int \<Rightarrow> (exn + response \<times> database) \<times> (path \<rightharpoonup> bytes)" where
  "delete_project_try e w project_id =
     (if execute_fails e (SelectFiles project_id) then (Inl Psycopg2Error, disk w)
      else
        let rows = filter (\<lambda>f. f_project_id f = project_id) (files (db w));
            (d', deleted_files) = remove_blobs e rows (disk w) []
        in if rows \<noteq> [] \<and> execute_fails e (DeleteFiles project_id) then (Inl Psycopg2Error, d')
           else
             let db1 = (if rows \<noteq> []
                        then (db w)\<lparr>files := filter (\<lambda>f. f_project_id f \<noteq> project_id) (files (db w))\<rparr>
                        else db w)
             in if execute_fails e (DeleteProject project_id) then (Inl Psycopg2Error, d')
                else if filter (\<lambda>p. p_id p = project_id) (projects db1) = []
                then (Inl (HTTPException 404 ''No project found'' None), d')
                else if execute_fails e Commit then (Inl Psycopg2Error, d')
                else (Inr (ProjectDeleted project_id (length deleted_files),
                           delete_project_row project_id db1), d'))"

text \<open>
  The endpoint. The confirmation check and the connection are outside the \<open>try\<close>;
  every exception raised inside it, the 404 included, reaches \<open>except Exception\<close>, which
  rolls back and raises a 500.
\<close>

definition delete_project :: "env \<Rightarrow> world \<Rightarrow> int \<Rightarrow> bool \<Rightarrow> (exn + response) \<times> world" where
  "delete_project e w project_id confirm =
     (if \<not> confirm then (Inl (HTTPException 400 ''Gotta confirm=True to delete'' None), w)
      else case get_db_connection e of
             Inl err \<Rightarrow> (Inl err, w)
           | Inr u \<Rightarrow>
               (case delete_project_try e w project_id of
                  (Inl err, d') \<Rightarrow>
                    (Inl (HTTPException 500 ''Error deleting: '' (Some err)), \<lparr>db = db w, disk = d'\<rparr>)
                | (Inr (resp, db'), d') \<Rightarrow> (Inr resp, \<lparr>db = db', disk = d'\<rparr>)))"

section \<open>Uploads (\<open>endpoints/projects.py\<close> and \<open>endpoints/files.py\<close>)\<close>

text \<open>
  Both modules define \<open>upload_case_study\<close> and \<open>upload_case_study_multiple\<close> with the same
  control flow; they differ in the upload directory and in the texts of their errors, which
  are the fields of \<open>endpoint_module\<close>.
\<close>

record endpoint_module =
  case_study_dir :: path
  need_target_detail :: string
  save_failed_detail :: string
  no_project_detail :: string
  no_files_detail :: string
  multi_no_project_detail :: string
  multi_failed_detail :: string

definition projects_py :: endpoint_module where
  "projects_py =
     \<lparr>case_study_dir = ''uploads'',
      need_target_detail = ''Need either project_id OR title+description'',
      save_failed_detail = ''Couldn't save file: '',
      no_project_detail = ''No project found'',
      no_files_detail = ''No files uploaded'',
      multi_no_project_detail = ''Project missing'',
      multi_failed_detail = ''Upload messed up: ''\<rparr>"

text \<open>In \<open>files.py\<close> the directory is \<open>Path("uploads").resolve()\<close>: below the working directory.\<close>

definition files_py :: "path \<Rightarrow> endpoint_module" where
  "files_py cwd =
     \<lparr>case_study_dir = cwd @ ''/uploads'',
      need_target_detail = ''Need project_id OR title+description'',
      save_failed_detail = ''File save failed: '',
      no_project_detail = ''Project not found'',
      no_files_detail = ''No files'',
      multi_no_project_detail = ''Project not found'',
      multi_failed_detail = ''Upload error: ''\<rparr>"

text \<open>\<open>not name or '/' in name or '\\' in name\<close>, for a name that is not \<open>None\<close>.\<close>

definition bad_name :: "string \<Rightarrow> bool" where
  "bad_name s = (s = [] \<or> CHR ''/'' \<in> set s \<or> CHR 0x5C \<in> set s)"

text \<open>\<open>CASE_STUDY_DIR / file.filename\<close>, for a name without separators.\<close>

definition file_location :: "endpoint_module \<Rightarrow> string \<Rightarrow> path" where
  "file_location m name = case_study_dir m @ ''/'' @ name"

text \<open>\<open>INSERT INTO projects (title, description, location) VALUES (...) RETURNING id\<close>\<close>

definition insert_project ::
  "env \<Rightarrow> database \<Rightarrow> string option \<Rightarrow> string option \<Rightarrow> string \<Rightarrow> exn + database \<times> int" where
  "insert_project e d t ds loc =
     (if execute_fails e InsertProject then Inl Psycopg2Error
      else Inr (d\<lparr>projects := projects d @
                     [\<lparr>p_id = projects_id_seq d, title = t, description = ds,
                       location = Some loc, start_date = None, end_date = None,
                       community_size = None, hazard_types = None, implementing_org = None,
                       author = None, source = None, created_at = Some (now e)\<rparr>],
                  projects_id_seq := projects_id_seq d + 1\<rparr>,
                projects_id_seq d))"

text \<open>
  The first statement of both \<open>try\<close> blocks: create the project from title and description
  with the given location, or check that the project of the request exists.
\<close>

definition resolve_project ::
  "env \<Rightarrow> database \<Rightarrow> string option \<Rightarrow> string option \<Rightarrow> int option \<Rightarrow> string \<Rightarrow> string
     \<Rightarrow> exn + database \<times> int" where
  "resolve_project e d t ds project_id loc missing =
     (case project_id of
        None \<Rightarrow> insert_project e d t ds loc
      | Some p \<Rightarrow>
          if execute_fails e (SelectProject p) then Inl Psycopg2Error
          else if filter (\<lambda>r. p_id r = p) (projects d) = []
          then Inl (HTTPException 404 missing None)
          else Inr (d, p))"

text \<open>\<open>INSERT INTO files (project_id, filename, filepath, filetype) VALUES (...) RETURNING id\<close>\<close>

definition insert_file ::
  "env \<Rightarrow> database \<Rightarrow> int \<Rightarrow> string \<Rightarrow> path \<Rightarrow> string option \<Rightarrow> exn + database \<times> int" where
  "insert_file e d pid name loc ftype =
     (if execute_fails e (InsertFile name) then Inl Psycopg2Error
      else Inr (d\<lparr>files := files d @
                     [\<lparr>f_id = files_id_seq d, f_project_id = pid, f_filename = name,
                       f_filepath = loc, f_filetype = ftype, f_uploaded_at = Some (now e)\<rparr>],
                  files_id_seq := files_id_seq d + 1\<rparr>,
                files_id_seq d))"

subsection \<open>One file\<close>

text \<open>
  The \<open>try\<close> block of \<open>upload_case_study\<close>, run on the tables: the exception or the response,
  and the tables of the transaction at that point.
\<close>

definition upload_case_study_try ::
  "endpoint_module \<Rightarrow> env \<Rightarrow> database \<Rightarrow> string option \<Rightarrow> string option \<Rightarrow> int option
     \<Rightarrow> string \<Rightarrow> string option \<Rightarrow> (exn + response) \<times> database" where
  "upload_case_study_try m e d t ds project_id name ftype =
     (case resolve_project e d t ds project_id ''unspecified'' (no_project_detail m) of
        Inl err \<Rightarrow> (Inl err, d)
      | Inr (d1, pid) \<Rightarrow>
          (case insert_file e d1 pid name (file_location m name) ftype of
             Inl err \<Rightarrow> (Inl err, d1)
           | Inr (d2, fid) \<Rightarrow>
               if execute_fails e Commit then (Inl Psycopg2Error, d2)
               else (Inr (FileUploaded pid fid), d2)))"

text \<open>
  The endpoint: the two request checks, the write of the blob, the connection (opened
  between the write and the \<open>try\<close>), the \<open>try\<close> block; its \<open>except Exception\<close> rolls back,
  removes the blob if it exists and raises a 400. An error of that removal is not caught.
\<close>

definition upload_case_study ::
  "endpoint_module \<Rightarrow> env \<Rightarrow> world \<Rightarrow> string option \<Rightarrow> string option \<Rightarrow> int option \<Rightarrow> upload_file
     \<Rightarrow> (exn + response) \<times> world" where
  "upload_case_study m e w t ds project_id file =
     (if project_id = None \<and> (t = None \<or> ds = None)
      then (Inl (HTTPException 400 (need_target_detail m) None), w)
      else case filename file of
        None \<Rightarrow> (Inl (HTTPException 400 ''Bad filename'' None), w)
      | Some name \<Rightarrow>
          if bad_name name then (Inl (HTTPException 400 ''Bad filename'' None), w)
          else
            (case open_write e (file_location m name) (content file) (disk w) of
               (Some err, d1) \<Rightarrow>
                 (Inl (HTTPException 500 (save_failed_detail m) (Some err)), w\<lparr>disk := d1\<rparr>)
             | (None, d1) \<Rightarrow>
                 (case get_db_connection e of
                    Inl err \<Rightarrow> (Inl err, w\<lparr>disk := d1\<rparr>)
                  | Inr u \<Rightarrow>
                      (case upload_case_study_try m e (db w) t ds project_id name (content_type file) of
                         (Inr resp, db') \<Rightarrow> (Inr resp, \<lparr>db = db', disk = d1\<rparr>)
                       | (Inl err, db') \<Rightarrow>
                           if os_path_exists d1 (file_location m name)
                           then (case os_remove e (file_location m name) d1 of
                                   Inl err' \<Rightarrow> (Inl err', \<lparr>db = rollback (db w) db', disk = d1\<rparr>)
                                 | Inr d2 \<Rightarrow>
                                     (Inl (HTTPException 400 [] (Some err)),
                                      \<lparr>db = rollback (db w) db', disk = d2\<rparr>))
                           else (Inl (HTTPException 400 [] (Some err)),
                                 \<lparr>db = rollback (db w) db', disk = d1\<rparr>)))))"

subsection \<open>Several files\<close>

text \<open>
  The loop over the uploaded files, on the tables of the transaction, the flag that says
  whether the transaction is aborted, the directory, \<open>saved_files\<close> and \<open>file_ids\<close>. A bad name
  is skipped by the first \<open>continue\<close>; an exception of the write or of the insert is
  swallowed by the second. A blob whose row could not be inserted stays on disk and in
  \<open>saved_files\<close>. The first insert that the server answers with an error aborts the
  transaction, and every insert after it raises.
\<close>

fun upload_loop ::
  "endpoint_module \<Rightarrow> env \<Rightarrow> int \<Rightarrow> upload_file list
     \<Rightarrow> database \<times> bool \<times> (path \<rightharpoonup> bytes) \<times> path list \<times> int list
     \<Rightarrow> database \<times> bool \<times> (path \<rightharpoonup> bytes) \<times> path list \<times> int list" where
  "upload_loop m e pid [] acc = acc"
| "upload_loop m e pid (file # rest) (d, aborted, dk, saved_files, file_ids) =
     (case filename file of
        None \<Rightarrow> upload_loop m e pid rest (d, aborted, dk, saved_files, file_ids)
      | Some name \<Rightarrow>
          if bad_name name then upload_loop m e pid rest (d, aborted, dk, saved_files, file_ids)
          else
            (case open_write e (file_location m name) (content file) dk of
               (Some err, dk1) \<Rightarrow> upload_loop m e pid rest (d, aborted, dk1, saved_files, file_ids)
             | (None, dk1) \<Rightarrow>
                 (case (if aborted then Inl InFailedSqlTransaction
                        else insert_file e d pid name (file_location m name) (content_type file)) of
                    Inl err \<Rightarrow>
                      upload_loop m e pid rest
                        (d, True, dk1, saved_files @ [file_location m name], file_ids)
                  | Inr (d1, fid) \<Rightarrow>
                      upload_loop m e pid rest
                        (d1, False, dk1, saved_files @ [file_location m name], file_ids @ [fid]))))"

text \<open>The clean-up loop of the outer \<open>except\<close>: it stops at the first removal that raises.\<close>

fun remove_saved :: "env \<Rightarrow> path list \<Rightarrow> (path \<rightharpoonup> bytes) \<Rightarrow> exn option \<times> (path \<rightharpoonup> bytes)" where
  "remove_saved e [] dk = (None, dk)"
| "remove_saved e (p # ps) dk =
     (if os_path_exists dk p
      then (case os_remove e p dk of
              Inl err \<Rightarrow> (Some err, dk)
            | Inr dk' \<Rightarrow> remove_saved e ps dk')
      else remove_saved e ps dk)"

text \<open>
  The \<open>try\<close> block of \<open>upload_case_study_multiple\<close>: the exception with the tables, the
  directory and \<open>saved_files\<close> at the time it was raised, or the response with the tables and
  the directory. \<open>conn.commit()\<close> in an aborted transaction raises nothing and rolls back, and
  the \<open>return\<close> after it answers with the ids collected in the loop.
\<close>

definition upload_case_study_multiple_try ::
  "endpoint_module \<Rightarrow> env \<Rightarrow> world \<Rightarrow> string option \<Rightarrow> string option \<Rightarrow> int option
     \<Rightarrow> upload_file list
     \<Rightarrow> exn \<times> database \<times> (path \<rightharpoonup> bytes) \<times> path list
         + response \<times> database \<times> (path \<rightharpoonup> bytes)" where
  "upload_case_study_multiple_try m e w t ds project_id fs =
     (case resolve_project e (db w) t ds project_id ''multiple_files'' (multi_no_project_detail m) of
        Inl err \<Rightarrow> Inl (err, db w, disk w, [])
      | Inr (d1, pid) \<Rightarrow>
          (case upload_loop m e pid fs (d1, False, disk w, [], []) of
             (d2, aborted, dk2, saved_files, file_ids) \<Rightarrow>
               if aborted
               then Inr (FilesUploaded (length saved_files) pid file_ids, rollback (db w) d2, dk2)
               else if execute_fails e Commit then Inl (Psycopg2Error, d2, dk2, saved_files)
               else Inr (FilesUploaded (length saved_files) pid file_ids, d2, dk2)))"

definition upload_case_study_multiple ::
  "endpoint_module \<Rightarrow> env \<Rightarrow> world \<Rightarrow> string option \<Rightarrow> string option \<Rightarrow> int option
     \<Rightarrow> upload_file list \<Rightarrow> (exn + response) \<times> world" where
  "upload_case_study_multiple m e w t ds project_id fs =
     (if fs = [] then (Inl (HTTPException 400 (no_files_detail m) None), w)
      else if project_id = None \<and> (t = None \<or> ds = None)
      then (Inl (HTTPException 400 ''Need project_id OR title+description'' None), w)
      else case get_db_connection e of
        Inl err \<Rightarrow> (Inl err, w)
      | Inr u \<Rightarrow>
          (case upload_case_study_multiple_try m e w t ds project_id fs of
             Inr (resp, db', dk') \<Rightarrow> (Inr resp, \<lparr>db = db', disk = dk'\<rparr>)
           | Inl (err, db', dk1, saved_files) \<Rightarrow>
               (case remove_saved e saved_files dk1 of
                  (Some err', dk2) \<Rightarrow> (Inl err', \<lparr>db = rollback (db w) db', disk = dk2\<rparr>)
                | (None, dk2) \<Rightarrow>
                    (Inl (HTTPException 500 (multi_failed_detail m) (Some err)),
                     \<lparr>db = rollback (db w) db', disk = dk2\<rparr>))))"

section \<open>Listing projects (\<open>endpoints/projects.py\<close>, \<open>list_projects\<close>)\<close>

text \<open>
  \<open>ORDER BY created_at DESC\<close>: \<open>sorts_before a b\<close> says that a row with timestamp \<open>a\<close> may
  stand before a row with timestamp \<open>b\<close>. PostgreSQL puts \<open>NULL\<close> first in a descending
  order. Rows with equal timestamps stay in table order.
\<close>

fun sorts_before :: "datetime option \<Rightarrow> datetime option \<Rightarrow> bool" where
  "sorts_before None b = True"
| "sorts_before (Some a) None = False"
| "sorts_before (Some a) (Some b) = (b \<le> a)"

fun insert_desc :: "('a \<Rightarrow> datetime option) \<Rightarrow> 'a \<Rightarrow> 'a list \<Rightarrow> 'a list" where
  "insert_desc key r [] = [r]"
| "insert_desc key r (x # xs) =
     (if sorts_before (key r) (key x) then r # x # xs else x # insert_desc key r xs)"

definition order_by_desc :: "('a \<Rightarrow> datetime option) \<Rightarrow> 'a list \<Rightarrow> 'a list" where
  "order_by_desc key rows = foldr (insert_desc key) rows []"

text \<open>SQL's \<open>COALESCE(x, v)\<close>.\<close>

definition coalesce :: "'a option \<Rightarrow> 'a \<Rightarrow> 'a" where
  "coalesce x v = (case x of None \<Rightarrow> v | Some y \<Rightarrow> y)"

text \<open>The select list of the query: four columns go through \<open>COALESCE\<close>, the others are read as stored.\<close>

definition select_columns :: "project_row \<Rightarrow> project_row" where
  "select_columns p =
     p\<lparr>title := Some (coalesce (title p) []),
       community_size := Some (coalesce (community_size p) 0),
       hazard_types := Some (coalesce (hazard_types p) []),
       implementing_org := Some (coalesce (implementing_org p) [])\<rparr>"

text \<open>The body of the \<open>for project in projects\<close> loop.\<close>

definition fix_nulls :: "project_row \<Rightarrow> project_row" where
  "fix_nulls p =
     (let p1 = (if hazard_types p = None then p\<lparr>hazard_types := Some []\<rparr> else p);
          p2 = (if community_size p1 = None then p1\<lparr>community_size := Some 0\<rparr> else p1)
      in if implementing_org p2 = None then p2\<lparr>implementing_org := Some []\<rparr> else p2)"

definition list_projects :: "env \<Rightarrow> database \<Rightarrow> exn + project_row list" where
  "list_projects e d =
     (case get_db_connection e of
        Inl err \<Rightarrow> Inl err
      | Inr u \<Rightarrow>
          if execute_fails e SelectProjects
          then Inl (HTTPException 500 ''Oops, error getting projects: '' (Some Psycopg2Error))
          else Inr (map fix_nulls (map select_columns (order_by_desc created_at (projects d)))))"

section \<open>Outcomes (\<open>endpoints/outcomes.py\<close>)\<close>

text \<open>
  In this module the SQL strings of the \<open>SELECT\<close> of \<open>get_project_outcome\<close> (lines 77 to 84)
  and of the \<open>UPDATE\<close> of \<open>update_outcome\<close> (lines 105 to 114) carry remarks that start with
  \<open>#\<close>, inside the string. They are part of the statement that is sent, and PostgreSQL, where
  \<open>#\<close> is an operator and not a comment, answers such a statement with a syntax error, on
  every call. No other statement of the endpoints modelled here has one.
\<close>

fun hash_remark :: "stmt \<Rightarrow> bool" where
  "hash_remark (SelectLatestOutcome p) = True"
| "hash_remark (UpdateOutcome i) = True"
| "hash_remark s = False"

text \<open>The exception of \<open>cur.execute\<close> for a statement of this module, if it raises.\<close>

definition execute_error :: "env \<Rightarrow> stmt \<Rightarrow> exn option" where
  "execute_error e s =
     (if hash_remark s then Some SyntaxError
      else if execute_fails e s then Some Psycopg2Error
      else None)"

text \<open>
  \<open>get_project_outcome\<close>: the rows of the project, newest first, \<open>LIMIT 1\<close>. Every exception
  of the \<open>try\<close>, the 404 for an empty result included, reaches \<open>except Exception\<close>, which
  raises a 500.
\<close>

definition get_project_outcome :: "env \<Rightarrow> database \<Rightarrow> int \<Rightarrow> exn + outcome_row" where
  "get_project_outcome e d project_id =
     (case get_db_connection e of
        Inl err \<Rightarrow> Inl err
      | Inr u \<Rightarrow>
          (case execute_error e (SelectLatestOutcome project_id) of
             Some err \<Rightarrow> Inl (HTTPException 500 [] (Some err))
           | None \<Rightarrow>
               (case take 1 (order_by_desc (\<lambda>oc. Some (o_created_at oc))
                               (filter (\<lambda>oc. o_project_id oc = project_id) (outcomes d))) of
                  [] \<Rightarrow> Inl (HTTPException 500 []
                               (Some (HTTPException 404 ''No outcomes found for this project'' None)))
                | outcome # rest \<Rightarrow> Inr outcome)))"

text \<open>The \<open>SET\<close> clause of \<open>update_outcome\<close>: each column keeps its value unless the request gives one.\<close>

definition set_outcome :: "outcome_update \<Rightarrow> outcome_row \<Rightarrow> outcome_row" where
  "set_outcome u oc =
     oc\<lparr>success_metrics := coalesce (u_success_metrics u) (success_metrics oc),
        challenges := coalesce (u_challenges u) (challenges oc),
        overall_success := coalesce (u_overall_success u) (overall_success oc),
        key_factors := coalesce (u_key_factors u) (key_factors oc)\<rparr>"

text \<open>
  \<open>update_outcome\<close>: \<open>UPDATE ... WHERE id = %s RETURNING ...\<close>, then the first returned row.
  \<open>outcome.success_metrics\<close> is passed as the Python \<open>dict\<close> it is (\<open>create_outcome\<close> passes
  \<open>json.dumps\<close> of it), which the driver cannot adapt. Every exception of the \<open>try\<close> is rolled
  back and raised again as a 400.
\<close>

definition update_outcome ::
  "env \<Rightarrow> database \<Rightarrow> int \<Rightarrow> outcome_update \<Rightarrow> (exn + outcome_row) \<times> database" where
  "update_outcome e d outcome_id u =
     (case get_db_connection e of
        Inl err \<Rightarrow> (Inl err, d)
      | Inr un \<Rightarrow>
          if u_success_metrics u \<noteq> None
          then (Inl (HTTPException 400 [] (Some CannotAdapt)), d)
          else
            (case execute_error e (UpdateOutcome outcome_id) of
               Some err \<Rightarrow> (Inl (HTTPException 400 [] (Some err)), d)
             | None \<Rightarrow>
                 let d1 = d\<lparr>outcomes :=
                             map (\<lambda>oc. if o_id oc = outcome_id then set_outcome u oc else oc)
                               (outcomes d)\<rparr>
                 in (case filter (\<lambda>oc. o_id oc = outcome_id) (outcomes d1) of
                       [] \<Rightarrow> (Inl (HTTPException 400 []
                                     (Some (HTTPException 404 ''Outcome not found'' None))), d)
                     | result # rest \<Rightarrow>
                         if execute_fails e Commit
                         then (Inl (HTTPException 400 [] (Some Psycopg2Error)), d)
                         else (Inr result, d1))))"

section \<open>Sample states\<close>

text \<open>
  Concrete environments, tables and requests on which the theorems below are run.
  In \<open>env_ok\<close> nothing fails; in \<open>env_db_down\<close> the database cannot be reached; in
  \<open>env_b_unwritable\<close> the file \<open>uploads/b.txt\<close> cannot be opened for writing; in
  \<open>env_b_rejected\<close> the server answers the insert of the file row of \<open>b.txt\<close> with an error.
\<close>

definition env_ok :: env where
  "env_ok =
     \<lparr>connect_fails = False, execute_fails = (\<lambda>s. False), write_fails = (\<lambda>p. False),
      write_leaves = (\<lambda>p. None), remove_fails = (\<lambda>p. False), now = 100\<rparr>"

definition env_db_down :: env where
  "env_db_down = env_ok\<lparr>connect_fails := True\<rparr>"

definition env_b_unwritable :: env where
  "env_b_unwritable = env_ok\<lparr>write_fails := (\<lambda>p. p = ''uploads/b.txt'')\<rparr>"

definition env_b_rejected :: env where
  "env_b_rejected = env_ok\<lparr>execute_fails := (\<lambda>s. s = InsertFile ''b.txt'')\<rparr>"

definition flood_project :: project_row where
  "flood_project =
     \<lparr>p_id = 1, title = Some ''Flood Response'', description = Some ''desc'',
      location = Some ''Riverdale'', start_date = Some 19723, end_date = None,
      community_size = Some 500, hazard_types = Some [''flood''],
      implementing_org = Some ''NGO'', author = None, source = None, created_at = Some 50\<rparr>"

definition old_project :: project_row where
  "old_project =
     \<lparr>p_id = 2, title = Some ''Storm Shelters'', description = None, location = None,
      start_date = None, end_date = None, community_size = None, hazard_types = None,
      implementing_org = None, author = None, source = None, created_at = Some 20\<rparr>"

definition db_flood :: database where
  "db_flood = \<lparr>projects = [flood_project], outcomes = [], files = [],
               projects_id_seq = 2, files_id_seq = 1\<rparr>"

definition db_two :: database where
  "db_two = \<lparr>projects = [old_project, flood_project], outcomes = [], files = [],
             projects_id_seq = 3, files_id_seq = 1\<rparr>"

definition w_flood :: world where
  "w_flood = \<lparr>db = db_flood, disk = Map.empty\<rparr>"

definition report_pdf :: upload_file where
  "report_pdf = \<lparr>filename = Some ''report.pdf'', content = ''%PDF'', content_type = Some ''application/pdf''\<rparr>"

definition passwd_file :: upload_file where
  "passwd_file = \<lparr>filename = Some ''../passwd'', content = ''root'', content_type = None\<rparr>"

definition batch :: "upload_file list" where
  "batch =
     [\<lparr>filename = Some ''a.txt'', content = ''alpha'', content_type = Some ''text/plain''\<rparr>,
      \<lparr>filename = Some ''b.txt'', content = ''beta'', content_type = Some ''text/plain''\<rparr>,
      \<lparr>filename = Some ''c.txt'', content = ''gamma'', content_type = None\<rparr>]"

definition levee_row :: "string \<Rightarrow> project_row" where
  "levee_row loc =
     \<lparr>p_id = 2, title = Some ''Levee'', description = Some ''plan'',
      location = Some loc, start_date = None, end_date = None,
      community_size = None, hazard_types = None, implementing_org = None,
      author = None, source = None, created_at = Some 100\<rparr>"

definition w_levee :: "string \<Rightarrow> world" where
  "w_levee loc =
     \<lparr>db = \<lparr>projects = [flood_project, levee_row loc], outcomes = [],
             files = [\<lparr>f_id = 1, f_project_id = 2, f_filename = ''report.pdf'',
                       f_filepath = ''uploads/report.pdf'', f_filetype = Some ''application/pdf'',
                       f_uploaded_at = Some 100\<rparr>],
             projects_id_seq = 3, files_id_seq = 2\<rparr>,
      disk = [''uploads/report.pdf'' \<mapsto> ''%PDF'']\<rparr>"

definition outcome_one :: outcome_row where
  "outcome_one = \<lparr>o_id = 3, o_project_id = 1, success_metrics = [(''homes_protected'', ''120'')],
                  challenges = [''funding''], overall_success = False,
                  key_factors = [''community buy-in''], o_created_at = 60\<rparr>"

definition db_outcome :: database where
  "db_outcome = db_flood\<lparr>outcomes := [outcome_one]\<rparr>"


section \<open>Vocabulary for the multi-file upload\<close>

text \<open>
  An abbreviation used to state what the loop of \<open>upload_case_study_multiple\<close> has done
  once it is over: \<open>blob_written\<close> holds of an uploaded file whose name passed the check and
  whose blob was written.
\<close>

abbreviation blob_written :: "endpoint_module \<Rightarrow> env \<Rightarrow> upload_file \<Rightarrow> bool" where
  "blob_written m e f \<equiv>
     (case filename f of None \<Rightarrow> False
      | Some n \<Rightarrow> \<not> bad_name n \<and> \<not> write_fails e (file_location m n))"

section \<open>Project deletion\<close>

text \<open>
  C5. A deletion request with \<open>confirm = False\<close> fails at once with the HTTP 400
  "confirmation required" error, whatever the project id, the tables, the directory and the
  environment are, and the state it returns is the state it was given: no project, file or
  outcome row is changed and no blob is removed.
\<close>

theorem delete_project_unconfirmed:
  "delete_project e w project_id False =
     (Inl (HTTPException 400 ''Gotta confirm=True to delete'' None), w)"
  by (simp add: delete_project_def)

text \<open>
  A confirmed deletion of a project that has no row, when the database is reachable and no
  statement raises: the blobs of the file rows that carry the project id are removed first
  (\<open>remove_blobs\<close>), the 404 is raised last, the tables are rolled back and the directory
  stays as the removal left it. The error that leaves the endpoint is the 500 of
  \<open>except Exception\<close>, with the 404 as its cause.
\<close>

lemma delete_project_absent:
  assumes "\<not> connect_fails e" and "\<forall>s. \<not> execute_fails e s"
    and "\<forall>r \<in> set (projects (db w)). p_id r \<noteq> project_id"
  shows "delete_project e w project_id True =
           (Inl (HTTPException 500 ''Error deleting: ''
                   (Some (HTTPException 404 ''No project found'' None))),
            \<lparr>db = db w,
             disk = fst (remove_blobs e
                      (filter (\<lambda>f. f_project_id f = project_id) (files (db w))) (disk w) [])\<rparr>)"
proof -
  from assms(3) have none: "filter (\<lambda>r. p_id r = project_id) (projects (db w)) = []"
    by (auto simp: filter_empty_conv)
  show ?thesis
    using assms(1,2) none
    by (simp add: delete_project_def delete_project_try_def get_db_connection_def Let_def
          split: prod.splits)
qed

text \<open>
  C2. The claim: a confirmed deletion of a project id without a project row fails with
  NotFound, after the blob clean-up. Run on tables that hold project 1 only, the deletion of
  project 9 raises the 404 inside the \<open>try\<close>, and what the caller receives is HTTP 500
  "Error deleting: ..." wrapping it: a server error, not NotFound. The tables and the
  directory are as before.
\<close>

theorem delete_project_missing_is_500:
  "delete_project env_ok \<lparr>db = db_flood, disk = Map.empty\<rparr> 9 True =
     (Inl (HTTPException 500 ''Error deleting: ''
             (Some (HTTPException 404 ''No project found'' None))),
      \<lparr>db = db_flood, disk = Map.empty\<rparr>)"
  by (simp add: delete_project_def delete_project_try_def get_db_connection_def env_ok_def
        db_flood_def flood_project_def)

section \<open>Single-file upload\<close>

text \<open>
  C7. A single-file upload whose file name is missing, empty, or contains \<open>/\<close> or a
  backslash is rejected with an HTTP 400 that has no cause, in both modules and whatever the
  other fields of the request are, and the state returned is the state given: nothing was
  written to the directory or to the tables.
\<close>

theorem upload_case_study_bad_filename:
  assumes "filename file = None \<or>
           (\<exists>s. filename file = Some s \<and> (s = [] \<or> CHR ''/'' \<in> set s \<or> CHR 0x5C \<in> set s))"
  shows "\<exists>detail. upload_case_study m e w t ds project_id file =
           (Inl (HTTPException 400 detail None), w)"
  using assms by (auto simp: upload_case_study_def bad_name_def)

text \<open>
  The rejection, run on the name \<open>../passwd\<close>.
\<close>

theorem upload_case_study_bad_filename_witness:
  "(filename passwd_file = None \<or>
      (\<exists>s. filename passwd_file = Some s \<and> (s = [] \<or> CHR ''/'' \<in> set s \<or> CHR 0x5C \<in> set s))) \<and>
   (\<exists>detail. upload_case_study projects_py env_ok w_flood None None (Some 1) passwd_file =
           (Inl (HTTPException 400 detail None), w_flood))"
  using upload_case_study_bad_filename [of passwd_file projects_py env_ok "w_flood" None None "Some 1"]
  by (simp add: passwd_file_def)

lemma rollback_same [simp]: "rollback d d = d"
  by (simp add: rollback_def)

lemma rollback_rows [simp]:
  "projects (rollback d d') = projects d"
  "outcomes (rollback d d') = outcomes d"
  "files (rollback d d') = files d"
  by (simp_all add: rollback_def)

text \<open>
  What the \<open>except\<close> handler achieves. When the blob was written, the connection was
  opened and the blob can be removed, every failure of the \<open>try\<close> block leaves the rows of
  the three tables as they were and no blob at the location of the upload; the other blobs
  are untouched. A blob that was at that location before the upload is gone as well.
\<close>

lemma upload_case_study_store_failure:
  assumes "filename file = Some n" and "\<not> bad_name n"
    and "\<not> write_fails e (file_location m n)"
    and "\<not> connect_fails e"
    and "project_id \<noteq> None \<or> (t \<noteq> None \<and> ds \<noteq> None)"
    and "\<not> remove_fails e (file_location m n)"
    and "upload_case_study m e w t ds project_id file = (Inl err, w')"
  shows "projects (db w') = projects (db w) \<and> outcomes (db w') = outcomes (db w) \<and>
         files (db w') = files (db w) \<and> disk w' (file_location m n) = None \<and>
         (\<forall>p. p \<noteq> file_location m n \<longrightarrow> disk w' p = disk w p)"
  using assms
  by (auto simp: upload_case_study_def open_write_def get_db_connection_def
        os_path_exists_def os_remove_def
      split: if_splits sum.splits prod.splits)

text \<open>
  Hence such a failure creates no orphan: if every blob had a file row with its path before
  the upload, every blob has one after it.
\<close>

lemma upload_case_study_store_failure_no_orphan:
  assumes "filename file = Some n" and "\<not> bad_name n"
    and "\<not> write_fails e (file_location m n)"
    and "\<not> connect_fails e"
    and "project_id \<noteq> None \<or> (t \<noteq> None \<and> ds \<noteq> None)"
    and "\<not> remove_fails e (file_location m n)"
    and "upload_case_study m e w t ds project_id file = (Inl err, w')"
    and "\<forall>p. disk w p \<noteq> None \<longrightarrow> p \<in> f_filepath ` set (files (db w))"
  shows "\<forall>p. disk w' p \<noteq> None \<longrightarrow> p \<in> f_filepath ` set (files (db w'))"
proof (intro allI impI)
  fix p
  assume p: "disk w' p \<noteq> None"
  from upload_case_study_store_failure [OF assms(1-7)]
  have same: "files (db w') = files (db w)" and gone: "disk w' (file_location m n) = None"
    and rest: "\<forall>q. q \<noteq> file_location m n \<longrightarrow> disk w' q = disk w q"
    by blast+
  from p gone have "p \<noteq> file_location m n" by auto
  with rest p have "disk w p \<noteq> None" by simp
  with assms(8) same show "p \<in> f_filepath ` set (files (db w'))" by simp
qed

text \<open>
  The instance for a project id without a project row: a 400 with the 404 as its cause.
\<close>

lemma upload_case_study_project_absent:
  assumes "filename file = Some n" and "\<not> bad_name n"
    and "\<not> write_fails e (file_location m n)"
    and "\<not> connect_fails e"
    and "\<not> execute_fails e (SelectProject p)"
    and "\<not> remove_fails e (file_location m n)"
    and "\<forall>r \<in> set (projects (db w)). p_id r \<noteq> p"
  shows "upload_case_study m e w t ds (Some p) file =
           (Inl (HTTPException 400 [] (Some (HTTPException 404 (no_project_detail m) None))),
            \<lparr>db = db w, disk = (disk w)(file_location m n := None)\<rparr>)"
proof -
  from assms(7) have "filter (\<lambda>r. p_id r = p) (projects (db w)) = []"
    by (auto simp: filter_empty_conv)
  with assms(1-6) show ?thesis
    by (simp add: upload_case_study_def open_write_def get_db_connection_def
          upload_case_study_try_def resolve_project_def os_path_exists_def os_remove_def)
qed

text \<open>
  The connection is opened after the blob is written and before the \<open>try\<close>. When it
  cannot be opened, the 500 of \<open>get_db_connection\<close> leaves the endpoint directly: no handler
  runs, and the blob stays in the directory.
\<close>

lemma upload_case_study_no_connection:
  assumes "filename file = Some n" and "\<not> bad_name n"
    and "project_id \<noteq> None \<or> (t \<noteq> None \<and> ds \<noteq> None)"
    and "\<not> write_fails e (file_location m n)"
    and "connect_fails e"
  shows "upload_case_study m e w t ds project_id file =
           (Inl (HTTPException 500 ''Database connection failed: '' (Some Psycopg2Error)),
            w\<lparr>disk := (disk w)(file_location m n \<mapsto> content file)\<rparr>)"
  using assms
  by (auto simp: upload_case_study_def open_write_def get_db_connection_def)

text \<open>
  C1. The claim: when a single-file upload has written its blob and a later store step
  (resolving or creating the project, inserting the file row) fails, the blob is deleted
  before the error is surfaced, so that after any failed single-file upload no blob is left
  without a file row. For a failure inside the \<open>try\<close> block that is the three lemmas on the
  handler above. For a database that cannot be reached, which the project cannot be resolved
  without, it is not what the code does: run on an upload of \<open>report.pdf\<close> to the existing
  project 1 in that situation, the endpoint fails with HTTP 500 and the directory, empty
  before, holds \<open>uploads/report.pdf\<close>, for which the tables have no file row.
\<close>

theorem upload_case_study_db_down:
  "upload_case_study projects_py env_db_down \<lparr>db = db_flood, disk = Map.empty\<rparr>
       None None (Some 1) report_pdf =
     (Inl (HTTPException 500 ''Database connection failed: '' (Some Psycopg2Error)),
      \<lparr>db = db_flood, disk = [''uploads/report.pdf'' \<mapsto> ''%PDF'']\<rparr>)"
  by (simp add: upload_case_study_def report_pdf_def bad_name_def open_write_def
        file_location_def projects_py_def env_db_down_def env_ok_def get_db_connection_def)

section \<open>Multi-file upload\<close>

text \<open>
  The loop changes neither the projects nor the outcomes.
\<close>

lemma upload_loop_projects:
  "projects (fst (upload_loop m e pid fs acc)) = projects (fst acc)"
  by (induction m e pid fs acc rule: upload_loop.induct)
     (auto simp: insert_file_def open_write_def split: option.splits sum.splits)

lemma upload_loop_outcomes:
  "outcomes (fst (upload_loop m e pid fs acc)) = outcomes (fst acc)"
  by (induction m e pid fs acc rule: upload_loop.induct)
     (auto simp: insert_file_def open_write_def split: option.splits sum.splits)

text \<open>
  The loop removes no blob: a path that holds a blob when the loop starts holds one when it
  ends, and so does the location of every file that was written.
\<close>

lemma upload_loop_disk_keeps:
  "fst (snd (snd acc)) p \<noteq> None \<Longrightarrow>
   fst (snd (snd (upload_loop m e pid fs acc))) p \<noteq> None"
  by (induction m e pid fs acc rule: upload_loop.induct)
     (auto simp: insert_file_def open_write_def split: option.splits sum.splits)

lemma upload_loop_disk_written:
  "f \<in> set fs \<Longrightarrow> filename f = Some n \<Longrightarrow> \<not> bad_name n \<Longrightarrow>
   \<not> write_fails e (file_location m n) \<Longrightarrow>
   fst (snd (snd (upload_loop m e pid fs acc))) (file_location m n) \<noteq> None"
proof (induction m e pid fs acc rule: upload_loop.induct)
  case (1 m e pid acc)
  then show ?case by simp
next
  case (2 m e pid fl rest d aborted dk saved_files file_ids)
  show ?case
  proof (cases "fl = f")
    case True
    let ?loc = "file_location m n"
    let ?dk1 = "dk(?loc \<mapsto> content f)"
    have now: "?dk1 ?loc \<noteq> None" by simp
    have "\<And>d' a' s' i'. fst (snd (snd (upload_loop m e pid rest (d', a', ?dk1, s', i')))) ?loc \<noteq> None"
      using upload_loop_disk_keeps [of _ ?loc m e pid rest] now by simp
    with True "2.prems" show ?thesis
      by (simp add: open_write_def insert_file_def split: sum.splits)
  next
    case False
    with "2.prems" have mem: "f \<in> set rest" by simp
    show ?thesis
      using "2.IH" mem "2.prems"(2-4)
      by (auto simp: open_write_def insert_file_def split: option.splits sum.splits if_splits)
  qed
qed

text \<open>
  As long as the server answers no insert of a file row with an error, the transaction is
  not aborted, and the loop adds one file row, of the project, for each file that was
  written, in request order; it collects the ids of these rows and counts these files.
\<close>

lemma upload_loop_without_insert_error:
  assumes "\<forall>n. \<not> execute_fails e (InsertFile n)"
  shows "\<exists>rows dk'. upload_loop m e pid fs (d, False, dk, saved, ids) =
      (d\<lparr>files := files d @ rows, files_id_seq := files_id_seq d + int (length rows)\<rparr>,
       False, dk',
       saved @ map (\<lambda>r. f_filepath r) rows,
       ids @ map f_id rows) \<and>
     map (\<lambda>r. Some (f_filename r)) rows = map filename (filter (blob_written m e) fs) \<and>
     (\<forall>r \<in> set rows. f_project_id r = pid)"
proof (induction fs arbitrary: d dk saved ids)
  case Nil
  show ?case by (rule exI [of _ "[]"], rule exI [of _ dk]) simp
next
  case (Cons f fs)
  show ?case
  proof (cases "filename f")
    case None
    from Cons.IH [of d dk saved ids] None show ?thesis by simp
  next
    case (Some n)
    let ?loc = "file_location m n"
    consider (bad) "bad_name n"
      | (nowrite) "\<not> bad_name n" "write_fails e ?loc"
      | (ok) "\<not> bad_name n" "\<not> write_fails e ?loc"
      by blast
    then show ?thesis
    proof cases
      case bad
      from Cons.IH [of d dk saved ids] Some bad show ?thesis by simp
    next
      case nowrite
      let ?dk1 = "case write_leaves e ?loc of None \<Rightarrow> dk | Some part \<Rightarrow> dk(?loc \<mapsto> part)"
      from Cons.IH [of d ?dk1 saved ids]
      obtain rows dk' where
        run: "upload_loop m e pid fs (d, False, ?dk1, saved, ids) =
          (d\<lparr>files := files d @ rows, files_id_seq := files_id_seq d + int (length rows)\<rparr>,
           False, dk', saved @ map (\<lambda>r. f_filepath r) rows, ids @ map f_id rows)"
        and names: "map (\<lambda>r. Some (f_filename r)) rows = map filename (filter (blob_written m e) fs)"
        and pids: "\<forall>r \<in> set rows. f_project_id r = pid"
        by blast
      show ?thesis
        by (rule exI [of _ rows], rule exI [of _ dk'])
           (use Some nowrite run names pids in \<open>simp add: open_write_def\<close>)
    next
      case ok
      let ?r = "\<lparr>f_id = files_id_seq d, f_project_id = pid, f_filename = n,
                 f_filepath = ?loc, f_filetype = content_type f, f_uploaded_at = Some (now e)\<rparr>"
      let ?d1 = "d\<lparr>files := files d @ [?r], files_id_seq := files_id_seq d + 1\<rparr>"
      from Cons.IH [of ?d1 "dk(?loc \<mapsto> content f)" "saved @ [?loc]" "ids @ [files_id_seq d]"]
      obtain rows dk' where
        run: "upload_loop m e pid fs
                (?d1, False, dk(?loc \<mapsto> content f), saved @ [?loc], ids @ [files_id_seq d]) =
          (?d1\<lparr>files := files ?d1 @ rows, files_id_seq := files_id_seq ?d1 + int (length rows)\<rparr>,
           False, dk', (saved @ [?loc]) @ map (\<lambda>r. f_filepath r) rows,
           (ids @ [files_id_seq d]) @ map f_id rows)"
        and names: "map (\<lambda>r. Some (f_filename r)) rows = map filename (filter (blob_written m e) fs)"
        and pids: "\<forall>r \<in> set rows. f_project_id r = pid"
        by blast
      show ?thesis
        by (rule exI [of _ "?r # rows"], rule exI [of _ dk'])
           (use Some ok assms run names pids in \<open>simp add: open_write_def insert_file_def\<close>)
    qed
  qed
qed

text \<open>
  A project id without a project row, when the database is reachable and the lookup does not
  raise: the loop is never entered and the state is unchanged, in both modules. The error that
  leaves the endpoint is the 500 of the outer \<open>except\<close>, with the 404 as its cause.
\<close>

lemma upload_multiple_project_absent:
  assumes "fs \<noteq> []" and "\<not> connect_fails e" and "\<not> execute_fails e (SelectProject p)"
    and "\<forall>r \<in> set (projects (db w)). p_id r \<noteq> p"
  shows "upload_case_study_multiple m e w t ds (Some p) fs =
           (Inl (HTTPException 500 (multi_failed_detail m)
                   (Some (HTTPException 404 (multi_no_project_detail m) None))),
            w)"
proof -
  from assms(4) have none: "filter (\<lambda>r. p_id r = p) (projects (db w)) = []"
    by (auto simp: filter_empty_conv)
  show ?thesis
    using assms(1-3) none
    by (simp add: upload_case_study_multiple_def upload_case_study_multiple_try_def
          get_db_connection_def resolve_project_def)
qed

text \<open>
  C3. The claim: a multi-file upload with a project id that references no project is aborted
  with NotFound before any blob is written. Run on tables that hold project 1 only, an upload
  to project 42 writes no blob and changes no row, in either module; but what the caller
  receives is HTTP 500 ("Upload messed up: ..." in \<open>projects.py\<close>, "Upload error: ..." in
  \<open>files.py\<close>) wrapping the 404: a server error, not NotFound.
\<close>

theorem upload_multiple_missing_project_is_500:
  "upload_case_study_multiple projects_py env_ok \<lparr>db = db_flood, disk = Map.empty\<rparr>
       None None (Some 42) [report_pdf] =
     (Inl (HTTPException 500 ''Upload messed up: ''
             (Some (HTTPException 404 ''Project missing'' None))),
      \<lparr>db = db_flood, disk = Map.empty\<rparr>) \<and>
   upload_case_study_multiple (files_py ''/srv'') env_ok \<lparr>db = db_flood, disk = Map.empty\<rparr>
       None None (Some 42) [report_pdf] =
     (Inl (HTTPException 500 ''Upload error: ''
             (Some (HTTPException 404 ''Project not found'' None))),
      \<lparr>db = db_flood, disk = Map.empty\<rparr>)"
  by (simp add: upload_case_study_multiple_def upload_case_study_multiple_try_def
        resolve_project_def get_db_connection_def env_ok_def db_flood_def flood_project_def
        projects_py_def files_py_def)

text \<open>
  What the endpoint does when the server answers no insert of a file row with an error,
  the database is reachable and neither the project statement nor the commit raises: it
  succeeds whatever the names of the files are and whichever writes fail. The file table is
  the old one followed by one row, of the response's project, for each file whose name is
  valid and whose blob was written, in request order; the number in the response is the
  number of these rows and the ids of the response are their ids; no path loses its blob and
  every written file has one; the project table is unchanged when a project id was given and
  has exactly one new row, with the given title and description, when it was not.
\<close>

lemma upload_multiple_without_insert_error:
  assumes "fs \<noteq> []"
    and "project_id = None \<longrightarrow> t \<noteq> None \<and> ds \<noteq> None"
    and "\<not> connect_fails e"
    and "case project_id of
           None \<Rightarrow> \<not> execute_fails e InsertProject
         | Some p \<Rightarrow> \<not> execute_fails e (SelectProject p) \<and> (\<exists>r \<in> set (projects (db w)). p_id r = p)"
    and "\<forall>n. \<not> execute_fails e (InsertFile n)"
    and "\<not> execute_fails e Commit"
  shows "\<exists>pid rows w'.
     upload_case_study_multiple m e w t ds project_id fs =
       (Inr (FilesUploaded (length rows) pid (map f_id rows)), w') \<and>
     (\<forall>p. disk w p \<noteq> None \<longrightarrow> disk w' p \<noteq> None) \<and>
     (\<forall>f \<in> set fs. \<forall>n. blob_written m e f \<and> filename f = Some n
          \<longrightarrow> disk w' (file_location m n) \<noteq> None) \<and>
     files (db w') = files (db w) @ rows \<and>
     map (\<lambda>r. Some (f_filename r)) rows = map filename (filter (blob_written m e) fs) \<and>
     (\<forall>r \<in> set rows. f_project_id r = pid) \<and>
     (case project_id of
        Some p \<Rightarrow> pid = p \<and> projects (db w') = projects (db w)
      | None \<Rightarrow> \<exists>row. projects (db w') = projects (db w) @ [row] \<and> p_id row = pid \<and>
                       title row = t \<and> description row = ds) \<and>
     outcomes (db w') = outcomes (db w)"
proof -
  obtain d1 pid where
    res: "resolve_project e (db w) t ds project_id ''multiple_files'' (multi_no_project_detail m) =
            Inr (d1, pid)"
    and files1: "files d1 = files (db w)" and outcomes1: "outcomes d1 = outcomes (db w)"
    and proj: "case project_id of
        Some p \<Rightarrow> pid = p \<and> projects d1 = projects (db w)
      | None \<Rightarrow> \<exists>row. projects d1 = projects (db w) @ [row] \<and> p_id row = pid \<and>
                       title row = t \<and> description row = ds"
  proof (cases project_id)
    case None
    with assms(4) that show ?thesis
      by (simp add: resolve_project_def insert_project_def)
  next
    case (Some p)
    with assms(4) have "filter (\<lambda>r. p_id r = p) (projects (db w)) \<noteq> []"
      by (auto simp: filter_empty_conv)
    with Some assms(4) that show ?thesis
      by (simp add: resolve_project_def)
  qed
  from upload_loop_without_insert_error [OF assms(5), of m pid fs d1 "disk w" "[]" "[]"]
  obtain rows dk' where
    run: "upload_loop m e pid fs (d1, False, disk w, [], []) =
      (d1\<lparr>files := files d1 @ rows, files_id_seq := files_id_seq d1 + int (length rows)\<rparr>,
       False, dk', [] @ map (\<lambda>r. f_filepath r) rows, [] @ map f_id rows)"
    and names: "map (\<lambda>r. Some (f_filename r)) rows = map filename (filter (blob_written m e) fs)"
    and pids: "\<forall>r \<in> set rows. f_project_id r = pid"
    by blast
  let ?d2 = "d1\<lparr>files := files d1 @ rows, files_id_seq := files_id_seq d1 + int (length rows)\<rparr>"
  let ?w' = "\<lparr>db = ?d2, disk = dk'\<rparr>"
  have result: "upload_case_study_multiple m e w t ds project_id fs =
       (Inr (FilesUploaded (length rows) pid (map f_id rows)), ?w')"
    using assms(1,2,3,6) res run
    by (cases project_id)
       (simp_all add: upload_case_study_multiple_def upload_case_study_multiple_try_def
          get_db_connection_def)
  have dk': "dk' = fst (snd (snd (upload_loop m e pid fs (d1, False, disk w, [], []))))"
    by (simp add: run)
  have kept: "\<forall>p. disk w p \<noteq> None \<longrightarrow> disk ?w' p \<noteq> None"
    using upload_loop_disk_keeps [of "(d1, False, disk w, [], [])" _ m e pid fs]
    by (simp add: dk')
  have there: "\<forall>f \<in> set fs. \<forall>n. blob_written m e f \<and> filename f = Some n
          \<longrightarrow> disk ?w' (file_location m n) \<noteq> None"
  proof (intro ballI allI impI)
    fix f n
    assume f: "f \<in> set fs" and h: "blob_written m e f \<and> filename f = Some n"
    then have "\<not> bad_name n" and "\<not> write_fails e (file_location m n)" by auto
    from upload_loop_disk_written [OF f _ this, of pid "(d1, False, disk w, [], [])"] h
    show "disk ?w' (file_location m n) \<noteq> None" by (simp add: dk')
  qed
  have projects2: "case project_id of
        Some p \<Rightarrow> pid = p \<and> projects (db ?w') = projects (db w)
      | None \<Rightarrow> \<exists>row. projects (db ?w') = projects (db w) @ [row] \<and> p_id row = pid \<and>
                       title row = t \<and> description row = ds"
    using proj by (simp split: option.splits)
  show ?thesis
    apply (rule exI [of _ pid], rule exI [of _ rows], rule exI [of _ ?w'])
    using result kept there names pids projects2 files1 outcomes1
    apply (intro conjI)
    apply simp_all
    done
qed

text \<open>
  An instance: a request of three files of which the second cannot be opened for writing,
  with a title and a description. The first and the third file are stored and answered with
  their ids, and one project is created.
\<close>

lemma upload_multiple_second_of_three:
  "upload_case_study_multiple projects_py env_b_unwritable \<lparr>db = db_flood, disk = Map.empty\<rparr>
       (Some ''Batch'') (Some ''docs'') None batch =
     (Inr (FilesUploaded 2 2 [1, 2]),
      \<lparr>db = \<lparr>projects =
                [flood_project,
                 \<lparr>p_id = 2, title = Some ''Batch'', description = Some ''docs'',
                  location = Some ''multiple_files'', start_date = None, end_date = None,
                  community_size = None, hazard_types = None, implementing_org = None,
                  author = None, source = None, created_at = Some 100\<rparr>],
              outcomes = [],
              files =
                [\<lparr>f_id = 1, f_project_id = 2, f_filename = ''a.txt'',
                  f_filepath = ''uploads/a.txt'', f_filetype = Some ''text/plain'',
                  f_uploaded_at = Some 100\<rparr>,
                 \<lparr>f_id = 2, f_project_id = 2, f_filename = ''c.txt'',
                  f_filepath = ''uploads/c.txt'', f_filetype = None,
                  f_uploaded_at = Some 100\<rparr>],
              projects_id_seq = 3, files_id_seq = 3\<rparr>,
        disk = [''uploads/a.txt'' \<mapsto> ''alpha'', ''uploads/c.txt'' \<mapsto> ''gamma'']\<rparr>)"
  by (simp add: upload_case_study_multiple_def upload_case_study_multiple_try_def
        resolve_project_def insert_project_def insert_file_def open_write_def bad_name_def
        file_location_def get_db_connection_def env_b_unwritable_def env_ok_def batch_def
        db_flood_def projects_py_def)

text \<open>
  C4. The claim: in a multi-file upload each blob is processed independently; a failed save
  or insert skips only that file; the response reports the count of the files actually saved
  and their ids; an implicitly created project is created exactly once. Where no insert is
  answered with an error this is the lemma above. Where one is, it is not what the code
  does. Run on the same three files with a title and a description, all three blobs
  writable, when the server answers the insert of the row of \<open>b.txt\<close> with an error: that
  error aborts the transaction, the insert of \<open>c.txt\<close> raises as well, and \<open>commit\<close> rolls
  back. The response is a success that counts 3 files, names project 2 and gives the one id
  1; afterwards the project table holds project 1 only, the file table is empty, and the
  three blobs are on disk.
\<close>

theorem upload_multiple_insert_error:
  "fst (upload_case_study_multiple projects_py env_b_rejected w_flood
          (Some ''Batch'') (Some ''docs'') None batch) =
     Inr (FilesUploaded 3 2 [1]) \<and>
   projects (db (snd (upload_case_study_multiple projects_py env_b_rejected w_flood
          (Some ''Batch'') (Some ''docs'') None batch))) = [flood_project] \<and>
   files (db (snd (upload_case_study_multiple projects_py env_b_rejected w_flood
          (Some ''Batch'') (Some ''docs'') None batch))) = [] \<and>
   disk (snd (upload_case_study_multiple projects_py env_b_rejected w_flood
          (Some ''Batch'') (Some ''docs'') None batch)) =
     [''uploads/a.txt'' \<mapsto> ''alpha'', ''uploads/b.txt'' \<mapsto> ''beta'',
      ''uploads/c.txt'' \<mapsto> ''gamma'']"
  by (simp add: upload_case_study_multiple_def upload_case_study_multiple_try_def
        resolve_project_def insert_project_def insert_file_def open_write_def bad_name_def
        file_location_def get_db_connection_def env_b_rejected_def env_ok_def batch_def
        w_flood_def db_flood_def projects_py_def rollback_def)

section \<open>The location of an implicitly created project\<close>

text \<open>
  When the server answers no insert of a file row with an error, the transaction of the loop
  is not aborted when the loop ends.
\<close>

lemma upload_loop_not_aborted:
  assumes "\<forall>n. \<not> execute_fails e (InsertFile n)"
  shows "fst (snd (upload_loop m e pid fs (d, False, dk, saved, ids))) = False"
  using upload_loop_without_insert_error [OF assms, of m pid fs d dk saved ids] by auto

text \<open>
  C10. A successful single-file upload without project id appends exactly one project row,
  whose location is \<open>unspecified\<close>. A multi-file upload without project id, however it ends,
  leaves the project table as it was or appends exactly one project row, whose location is
  \<open>multiple_files\<close>; and it does append that row when it succeeds and the server has answered
  no insert of a file row with an error. In both endpoints the row has the title and the
  description of the request, and the two locations differ. This holds in both modules.
\<close>

theorem implicit_project_location:
  "(upload_case_study m e w t ds None file = (Inr ra, wa) \<longrightarrow>
      (\<exists>p. projects (db wa) = projects (db w) @ [p] \<and> location p = Some ''unspecified''
            \<and> title p = t \<and> description p = ds)) \<and>
   (upload_case_study_multiple m e w t ds None fs = (rb, wb) \<longrightarrow>
      projects (db wb) = projects (db w) \<or>
      (\<exists>p. projects (db wb) = projects (db w) @ [p] \<and> location p = Some ''multiple_files''
            \<and> title p = t \<and> description p = ds)) \<and>
   (upload_case_study_multiple m e w t ds None fs = (Inr rc, wc) \<and>
    (\<forall>n. \<not> execute_fails e (InsertFile n)) \<longrightarrow>
      (\<exists>p. projects (db wc) = projects (db w) @ [p] \<and> location p = Some ''multiple_files''
            \<and> title p = t \<and> description p = ds)) \<and>
   ''unspecified'' \<noteq> ''multiple_files''"
proof (intro conjI impI)
  assume "upload_case_study m e w t ds None file = (Inr ra, wa)"
  then show "\<exists>p. projects (db wa) = projects (db w) @ [p] \<and> location p = Some ''unspecified''
            \<and> title p = t \<and> description p = ds"
    by (auto simp: upload_case_study_def upload_case_study_try_def resolve_project_def
          insert_project_def insert_file_def
        split: if_splits option.splits sum.splits prod.splits)
next
  assume a: "upload_case_study_multiple m e w t ds None fs = (rb, wb)"
  show "projects (db wb) = projects (db w) \<or>
      (\<exists>p. projects (db wb) = projects (db w) @ [p] \<and> location p = Some ''multiple_files''
            \<and> title p = t \<and> description p = ds)"
  proof (cases "resolve_project e (db w) t ds None ''multiple_files'' (multi_no_project_detail m)")
    case (Inl err)
    with a have "projects (db wb) = projects (db w)"
      by (auto simp: upload_case_study_multiple_def upload_case_study_multiple_try_def
          split: if_splits sum.splits prod.splits option.splits)
    then show ?thesis by simp
  next
    case (Inr r)
    obtain d1 pid where r: "r = (d1, pid)" by (cases r)
    obtain d2 ab dk2 saved ids where
      l: "upload_loop m e pid fs (d1, False, disk w, [], []) = (d2, ab, dk2, saved, ids)"
      by (cases "upload_loop m e pid fs (d1, False, disk w, [], [])") auto
    have "projects d2 = projects d1"
      using upload_loop_projects [of m e pid fs "(d1, False, disk w, [], [])"] l by simp
    moreover from Inr r have "\<exists>p. projects d1 = projects (db w) @ [p] \<and>
        location p = Some ''multiple_files'' \<and> title p = t \<and> description p = ds"
      by (auto simp: resolve_project_def insert_project_def split: if_splits)
    moreover from a Inr r l have "projects (db wb) = projects (db w) \<or> db wb = d2"
      by (auto simp: upload_case_study_multiple_def upload_case_study_multiple_try_def
          split: if_splits sum.splits prod.splits option.splits)
    ultimately show ?thesis by auto
  qed
next
  assume a: "upload_case_study_multiple m e w t ds None fs = (Inr rc, wc) \<and>
    (\<forall>n. \<not> execute_fails e (InsertFile n))"
  then have ok: "\<forall>n. \<not> execute_fails e (InsertFile n)" by simp
  from a obtain d1 pid d2 ab dk2 saved ids where
    r: "resolve_project e (db w) t ds None ''multiple_files'' (multi_no_project_detail m) = Inr (d1, pid)"
    and l: "upload_loop m e pid fs (d1, False, disk w, [], []) = (d2, ab, dk2, saved, ids)"
    and w2: "ab \<or> db wc = d2"
    by (auto simp: upload_case_study_multiple_def upload_case_study_multiple_try_def
        split: if_splits option.splits sum.splits prod.splits)
  from upload_loop_not_aborted [OF ok, of m pid fs d1 "disk w" "[]" "[]"] l
  have "\<not> ab" by simp
  with w2 have wc: "db wc = d2" by simp
  from l have "projects d2 = projects d1"
    using upload_loop_projects [of m e pid fs "(d1, False, disk w, [], [])"] by simp
  with r wc show "\<exists>p. projects (db wc) = projects (db w) @ [p] \<and> location p = Some ''multiple_files''
            \<and> title p = t \<and> description p = ds"
    by (auto simp: resolve_project_def insert_project_def split: if_splits)
next
  show "''unspecified'' \<noteq> ''multiple_files''" by simp
qed

text \<open>
  Both uploads, run with the same title and description on the same state, in an
  environment where nothing fails.
\<close>

theorem implicit_project_location_witness:
  "upload_case_study projects_py env_ok w_flood (Some ''Levee'') (Some ''plan'') None report_pdf =
     (Inr (FileUploaded 2 1), w_levee ''unspecified'') \<and>
   upload_case_study_multiple projects_py env_ok w_flood (Some ''Levee'') (Some ''plan'') None
       [report_pdf] =
     (Inr (FilesUploaded 1 2 [1]), w_levee ''multiple_files'') \<and>
   (\<forall>n. \<not> execute_fails env_ok (InsertFile n)) \<and>
   (\<exists>p. projects (db (w_levee ''unspecified'')) = projects (db w_flood) @ [p] \<and>
        location p = Some ''unspecified'' \<and> title p = Some ''Levee'' \<and>
        description p = Some ''plan'') \<and>
   (\<exists>p. projects (db (w_levee ''multiple_files'')) = projects (db w_flood) @ [p] \<and>
        location p = Some ''multiple_files'' \<and> title p = Some ''Levee'' \<and>
        description p = Some ''plan'')"
proof -
  have single: "upload_case_study projects_py env_ok w_flood (Some ''Levee'') (Some ''plan'') None
       report_pdf = (Inr (FileUploaded 2 1), w_levee ''unspecified'')"
    by (simp add: upload_case_study_def upload_case_study_try_def resolve_project_def
          insert_project_def insert_file_def open_write_def bad_name_def file_location_def
          get_db_connection_def env_ok_def report_pdf_def w_flood_def db_flood_def
          projects_py_def w_levee_def levee_row_def)
  have multi: "upload_case_study_multiple projects_py env_ok w_flood (Some ''Levee'')
       (Some ''plan'') None [report_pdf] =
     (Inr (FilesUploaded 1 2 [1]), w_levee ''multiple_files'')"
    by (simp add: upload_case_study_multiple_def upload_case_study_multiple_try_def
          resolve_project_def insert_project_def insert_file_def open_write_def bad_name_def
          file_location_def get_db_connection_def env_ok_def report_pdf_def w_flood_def
          db_flood_def projects_py_def w_levee_def levee_row_def)
  have ok: "\<forall>n. \<not> execute_fails env_ok (InsertFile n)" by (simp add: env_ok_def)
  from implicit_project_location [of projects_py env_ok w_flood "Some ''Levee''" "Some ''plan''"
         report_pdf "FileUploaded 2 1" "w_levee ''unspecified''" "[report_pdf]"
         "Inr (FilesUploaded 1 2 [1])" "w_levee ''multiple_files''"
         "FilesUploaded 1 2 [1]" "w_levee ''multiple_files''"]
  have "(\<exists>p. projects (db (w_levee ''unspecified'')) = projects (db w_flood) @ [p] \<and>
        location p = Some ''unspecified'' \<and> title p = Some ''Levee'' \<and>
        description p = Some ''plan'') \<and>
   (\<exists>p. projects (db (w_levee ''multiple_files'')) = projects (db w_flood) @ [p] \<and>
        location p = Some ''multiple_files'' \<and> title p = Some ''Levee'' \<and>
        description p = Some ''plan'')"
    using single multi ok by blast
  with single multi ok show ?thesis by (intro conjI) blast+
qed

section \<open>Listing projects\<close>

lemma sorts_before_total: "sorts_before a b \<or> sorts_before b a"
  by (cases a; cases b) auto

lemma sorts_before_trans: "sorts_before a b \<Longrightarrow> sorts_before b c \<Longrightarrow> sorts_before a c"
  by (cases a; cases b; cases c) auto

lemma set_insert_desc [simp]: "set (insert_desc key r xs) = insert r (set xs)"
  by (induction xs) auto

lemma mset_insert_desc [simp]: "mset (insert_desc key r xs) = add_mset r (mset xs)"
  by (induction xs) auto

lemma sorted_insert_desc:
  "sorted_wrt (\<lambda>a b. sorts_before (key a) (key b)) xs \<Longrightarrow>
   sorted_wrt (\<lambda>a b. sorts_before (key a) (key b)) (insert_desc key r xs)"
proof (induction xs)
  case Nil
  then show ?case by simp
next
  case (Cons x xs)
  show ?case
  proof (cases "sorts_before (key r) (key x)")
    case True
    with Cons.prems show ?thesis by (auto intro: sorts_before_trans)
  next
    case False
    then have "sorts_before (key x) (key r)" using sorts_before_total by blast
    with False Cons show ?thesis by auto
  qed
qed

lemma mset_order_by_desc [simp]: "mset (order_by_desc key xs) = mset xs"
  by (induction xs) (simp_all add: order_by_desc_def)

lemma set_order_by_desc [simp]: "set (order_by_desc key xs) = set xs"
  by (induction xs) (simp_all add: order_by_desc_def)

lemma sorted_order_by_desc:
  "sorted_wrt (\<lambda>a b. sorts_before (key a) (key b)) (order_by_desc key xs)"
  by (induction xs) (simp_all add: order_by_desc_def sorted_insert_desc)

lemma fix_nulls_select_columns: "fix_nulls (select_columns p) = select_columns p"
  by (simp add: fix_nulls_def select_columns_def)

lemma created_at_select_columns [simp]: "created_at (select_columns p) = created_at p"
  by (simp add: select_columns_def)

text \<open>
  C8, as stated, fails: it says that every null text field of a returned project is
  normalized to the empty string. The project of \<open>db_flood\<close> was stored without an author;
  the listing returns it as stored, with \<open>author = None\<close>.
\<close>

theorem list_projects_author_not_normalized:
  "list_projects env_ok db_flood = Inr [flood_project] \<and> author flood_project = None"
  by (simp add: list_projects_def get_db_connection_def env_ok_def db_flood_def
        order_by_desc_def fix_nulls_def select_columns_def coalesce_def flood_project_def)

text \<open>
  C8, amended. When the database is reachable and the query does not raise, the listing
  returns every stored project exactly once, ordered by \<open>created_at\<close> descending (a row
  without timestamp first), and in each returned project a null \<open>title\<close>,
  \<open>community_size\<close>, \<open>hazard_types\<close> or \<open>implementing_org\<close> is replaced by the empty
  string, 0, the empty list and the empty string; every other field (\<open>description\<close>,
  \<open>location\<close>, the dates, \<open>author\<close>, \<open>source\<close>, \<open>created_at\<close>) is returned as stored,
  null included.
\<close>

theorem list_projects_newest_first:
  assumes "\<not> connect_fails e" and "\<not> execute_fails e SelectProjects"
  shows "\<exists>rows. list_projects e d = Inr rows \<and>
           mset rows =
             image_mset
               (\<lambda>p. p\<lparr>title := Some (case title p of None \<Rightarrow> [] | Some x \<Rightarrow> x),
                      community_size := Some (case community_size p of None \<Rightarrow> 0 | Some n \<Rightarrow> n),
                      hazard_types := Some (case hazard_types p of None \<Rightarrow> [] | Some hs \<Rightarrow> hs),
                      implementing_org :=
                        Some (case implementing_org p of None \<Rightarrow> [] | Some x \<Rightarrow> x)\<rparr>)
               (mset (projects d)) \<and>
           sorted_wrt (\<lambda>a b. sorts_before (created_at a) (created_at b)) rows"
proof -
  let ?sorted = "order_by_desc created_at (projects d)"
  let ?rows = "map select_columns ?sorted"
  have run: "list_projects e d = Inr ?rows"
    using assms
    by (simp add: list_projects_def get_db_connection_def fix_nulls_select_columns)
  have "mset ?rows = image_mset select_columns (mset (projects d))"
    by simp
  moreover have "select_columns =
      (\<lambda>p. p\<lparr>title := Some (case title p of None \<Rightarrow> [] | Some x \<Rightarrow> x),
                      community_size := Some (case community_size p of None \<Rightarrow> 0 | Some n \<Rightarrow> n),
                      hazard_types := Some (case hazard_types p of None \<Rightarrow> [] | Some hs \<Rightarrow> hs),
                      implementing_org :=
                        Some (case implementing_org p of None \<Rightarrow> [] | Some x \<Rightarrow> x)\<rparr>)"
    by (rule ext) (simp add: select_columns_def coalesce_def)
  moreover have "sorted_wrt (\<lambda>a b. sorts_before (created_at a) (created_at b)) ?rows"
    using sorted_order_by_desc [of created_at "projects d"]
    by (simp add: sorted_wrt_map)
  ultimately show ?thesis using run by simp
qed

text \<open>
  The listing of two projects, the older one stored first and with nulls.
\<close>

theorem list_projects_newest_first_witness:
  "\<not> connect_fails env_ok \<and> \<not> execute_fails env_ok SelectProjects \<and>
   list_projects env_ok db_two =
     Inr [flood_project,
          old_project\<lparr>community_size := Some 0, hazard_types := Some [],
                      implementing_org := Some []\<rparr>] \<and>
   (\<exists>rows. list_projects env_ok db_two = Inr rows \<and>
           mset rows =
             image_mset
               (\<lambda>p. p\<lparr>title := Some (case title p of None \<Rightarrow> [] | Some x \<Rightarrow> x),
                      community_size := Some (case community_size p of None \<Rightarrow> 0 | Some n \<Rightarrow> n),
                      hazard_types := Some (case hazard_types p of None \<Rightarrow> [] | Some hs \<Rightarrow> hs),
                      implementing_org :=
                        Some (case implementing_org p of None \<Rightarrow> [] | Some x \<Rightarrow> x)\<rparr>)
               (mset (projects db_two)) \<and>
           sorted_wrt (\<lambda>a b. sorts_before (created_at a) (created_at b)) rows)"
proof -
  have h1: "\<not> connect_fails env_ok" and h2: "\<not> execute_fails env_ok SelectProjects"
    by (simp_all add: env_ok_def)
  have run: "list_projects env_ok db_two =
     Inr [flood_project,
          old_project\<lparr>community_size := Some 0, hazard_types := Some [],
                      implementing_org := Some []\<rparr>]"
    by (simp add: list_projects_def get_db_connection_def env_ok_def db_two_def
          order_by_desc_def fix_nulls_def select_columns_def coalesce_def flood_project_def
          old_project_def)
  from list_projects_newest_first [OF h1 h2, of db_two] h1 h2 run
  show ?thesis by (intro conjI)
qed

section \<open>Outcomes\<close>

text \<open>
  The \<open>SELECT\<close> of \<open>get_project_outcome\<close> is one of the statements with \<open>#\<close> remarks: once
  the database is reached, every call ends in \<open>except Exception\<close> with the server's syntax
  error, whatever the tables hold. The branch that returns an outcome and the branch that
  raises the 404 are never reached.
\<close>

lemma get_project_outcome_raises:
  "get_project_outcome e d project_id =
     (if connect_fails e
      then Inl (HTTPException 500 ''Database connection failed: '' (Some Psycopg2Error))
      else Inl (HTTPException 500 [] (Some SyntaxError)))"
  by (simp add: get_project_outcome_def get_db_connection_def execute_error_def)

text \<open>
  C9. The claim: read-latest returns the newest outcome of a project that has one, and
  fails with NotFound for a project that has none. Run on project 1 of \<open>db_outcome\<close>, which
  has one outcome, and on project 1 of \<open>db_flood\<close>, which has none: in both cases what
  the caller receives is HTTP 500 with the syntax error as its cause, neither the outcome
  nor NotFound. (The 404 that the code would raise for an empty result sits inside the same
  \<open>try\<close> and would leave it as a 500 too.)
\<close>

theorem get_project_outcome_is_500:
  "get_project_outcome env_ok db_outcome 1 = Inl (HTTPException 500 [] (Some SyntaxError)) \<and>
   get_project_outcome env_ok db_flood 1 = Inl (HTTPException 500 [] (Some SyntaxError))"
  by (simp add: get_project_outcome_def get_db_connection_def execute_error_def env_ok_def)

text \<open>
  The \<open>UPDATE\<close> of \<open>update_outcome\<close> is the other statement with \<open>#\<close> remarks, and a
  \<open>success_metrics\<close> given in the request cannot be adapted: once the database is reached,
  every call ends in the handler with a 400, and in every case the tables are as before.
\<close>

lemma update_outcome_raises:
  "\<not> connect_fails e \<Longrightarrow>
   update_outcome e d outcome_id u =
     (Inl (HTTPException 400 []
             (Some (if u_success_metrics u \<noteq> None then CannotAdapt else SyntaxError))), d)"
  by (simp add: update_outcome_def get_db_connection_def execute_error_def)





end
